theory Spec2Isabelle
  imports Main "HOL-Library.Sublist"
begin

section \<open>Python strings and paths\<close>

text \<open>
  A Python \<open>str\<close> and a Python \<open>bytes\<close> value are both modelled as a list of
  characters. The string operations below are the ones \<open>app.py\<close> calls.
\<close>

type_synonym bytes = string

text \<open>\<open>sub in s\<close> on strings: \<open>sub\<close> occurs as a contiguous substring of \<open>s\<close>.\<close>

fun str_contains :: "string \<Rightarrow> string \<Rightarrow> bool" where
  "str_contains sub [] = (sub = [])"
| "str_contains sub (c # cs) = (prefix sub (c # cs) \<or> str_contains sub cs)"

text \<open>\<open>s.startswith(p)\<close>.\<close>

definition startswith :: "string \<Rightarrow> string \<Rightarrow> bool" where
  "startswith s p = prefix p s"

text \<open>\<open>s.split(sep)\<close> for a one-character separator: never empty, one more piece than
  there are separators.\<close>

fun split :: "char \<Rightarrow> string \<Rightarrow> string list" where
  "split sep [] = [[]]"
| "split sep (c # cs) =
     (if c = sep then [] # split sep cs
      else (case split sep cs of
              [] \<Rightarrow> [[c]]
            | piece # pieces \<Rightarrow> (c # piece) # pieces))"

text \<open>\<open>s.rsplit('.', 1)[1]\<close>, read only where \<open>'.' in s\<close>: the text after the last dot.\<close>

definition rsplit_dot_1 :: "string \<Rightarrow> string" where
  "rsplit_dot_1 s = rev (takeWhile (\<lambda>c. c \<noteq> CHR ''.'') (rev s))"

text \<open>\<open>s.lower()\<close> on ASCII letters.\<close>

definition lower_char :: "char \<Rightarrow> char" where
  "lower_char c =
     (if 65 \<le> (of_char c :: nat) \<and> (of_char c :: nat) \<le> 90
      then char_of ((of_char c :: nat) + 32) else c)"

definition lower :: "string \<Rightarrow> string" where
  "lower s = map lower_char s"

text \<open>\<open>os.path.join(a, b)\<close> (POSIX): an absolute \<open>b\<close> replaces \<open>a\<close>.\<close>

definition os_path_join :: "string \<Rightarrow> string \<Rightarrow> string" where
  "os_path_join a b =
     (if startswith b ''/'' then b
      else if a = [] \<or> last a = CHR ''/'' then a @ b
      else a @ ''/'' @ b)"

text \<open>\<open>os.path.basename(p)\<close>: the text after the last slash.\<close>

definition os_path_basename :: "string \<Rightarrow> string" where
  "os_path_basename p = rev (takeWhile (\<lambda>c. c \<noteq> CHR ''/'') (rev p))"

section \<open>Configuration\<close>

record config =
  UPLOAD_FOLDER :: string
  ALLOWED_EXTENSIONS :: "string set"
  MAX_IMAGES :: nat

text \<open>The values \<open>app.py\<close> sets at start-up (lines 16 to 19).\<close>

definition app_config :: config where
  "app_config =
     \<lparr>UPLOAD_FOLDER = ''uploads'',
      ALLOWED_EXTENSIONS = {''png'', ''jpg'', ''jpeg'', ''gif'', ''bmp''},
      MAX_IMAGES = 100\<rparr>"

text \<open>\<open>allowed_file\<close> (lines 28 to 31).\<close>

definition allowed_file :: "config \<Rightarrow> string \<Rightarrow> bool" where
  "allowed_file cfg filename =
     (CHR ''.'' \<in> set filename \<and> lower (rsplit_dot_1 filename) \<in> ALLOWED_EXTENSIONS cfg)"

section \<open>The file system\<close>

text \<open>
  The file system is the list of its files, each under its literal path, in the order
  \<open>os.listdir\<close> reports them (an order Python leaves unspecified). A \<open>locked\<close> file is
  one the process may neither open nor remove (a permission error, a directory).
\<close>

record stored_file =
  path :: string
  content :: bytes
  mtime :: int
  locked :: bool

type_synonym filesystem = "stored_file list"

datatype py_exception =
    IndexError
  | TypeError
  | FileNotFoundError
  | PermissionError
  | BinasciiError
  | UnidentifiedImageError
  | EncoderError
  | HTTPException

definition lookup :: "filesystem \<Rightarrow> string \<Rightarrow> stored_file option" where
  "lookup fs p = find (\<lambda>f. path f = p) fs"

text \<open>\<open>os.listdir(folder)\<close>: the names of the entries directly inside \<open>folder\<close>.\<close>

definition os_listdir :: "filesystem \<Rightarrow> string \<Rightarrow> string list" where
  "os_listdir fs folder =
     map (\<lambda>f. os_path_basename (path f))
       (filter (\<lambda>f. os_path_basename (path f) \<noteq> [] \<and>
                     os_path_join folder (os_path_basename (path f)) = path f) fs)"

definition os_path_exists :: "filesystem \<Rightarrow> string \<Rightarrow> bool" where
  "os_path_exists fs p = (lookup fs p \<noteq> None)"

definition os_path_getsize :: "filesystem \<Rightarrow> string \<Rightarrow> py_exception + nat" where
  "os_path_getsize fs p =
     (case lookup fs p of None \<Rightarrow> Inl FileNotFoundError | Some f \<Rightarrow> Inr (length (content f)))"

definition os_path_getmtime :: "filesystem \<Rightarrow> string \<Rightarrow> py_exception + int" where
  "os_path_getmtime fs p =
     (case lookup fs p of None \<Rightarrow> Inl FileNotFoundError | Some f \<Rightarrow> Inr (mtime f))"

definition os_remove :: "filesystem \<Rightarrow> string \<Rightarrow> py_exception + filesystem" where
  "os_remove fs p =
     (case lookup fs p of
        None \<Rightarrow> Inl FileNotFoundError
      | Some f \<Rightarrow> if locked f then Inl PermissionError
                  else Inr (filter (\<lambda>g. path g \<noteq> p) fs))"

text \<open>Opening \<open>p\<close> for writing and writing \<open>data\<close> at time \<open>now\<close>: an existing file is
  overwritten in place, a new one is added to the listing.\<close>

definition write_file :: "filesystem \<Rightarrow> string \<Rightarrow> bytes \<Rightarrow> int \<Rightarrow> py_exception + filesystem" where
  "write_file fs p data now =
     (case lookup fs p of
        None \<Rightarrow> Inr (fs @ [\<lparr>path = p, content = data, mtime = now, locked = False\<rparr>])
      | Some f \<Rightarrow> if locked f then Inl PermissionError
                  else Inr (map (\<lambda>g. if path g = p then g\<lparr>content := data, mtime := now\<rparr> else g) fs))"

text \<open>Opening \<open>p\<close> for reading, as \<open>send_file\<close> does.\<close>

definition read_file :: "filesystem \<Rightarrow> string \<Rightarrow> py_exception + bytes" where
  "read_file fs p =
     (case lookup fs p of
        None \<Rightarrow> Inl FileNotFoundError
      | Some f \<Rightarrow> if locked f then Inl PermissionError else Inr (content f))"

section \<open>Eviction: \<open>cleanup_old_images\<close>\<close>

datatype log_record =
    Info_Removed_old_image string
  | Error_during_cleanup py_exception
  | Error_saving_image py_exception
  | Error_in_save_image py_exception
  | Error_listing_images py_exception
  | Error_retrieving_image py_exception
  | Error_deleting_image py_exception

text \<open>The scan loop of lines 36 to 41; \<open>images\<close> is the accumulator.\<close>

fun collect_images ::
  "config \<Rightarrow> filesystem \<Rightarrow> string list \<Rightarrow> (string \<times> int) list \<Rightarrow> py_exception + (string \<times> int) list"
where
  "collect_images cfg fs [] images = Inr images"
| "collect_images cfg fs (filename # rest) images =
     (if allowed_file cfg filename then
        (case os_path_getmtime fs (os_path_join (UPLOAD_FOLDER cfg) filename) of
           Inl e \<Rightarrow> Inl e
         | Inr modified_time \<Rightarrow>
             collect_images cfg fs rest
               (images @ [(os_path_join (UPLOAD_FOLDER cfg) filename, modified_time)]))
      else collect_images cfg fs rest images)"

text \<open>The removal loop of lines 49 to 51 over \<open>images[0 .. images_to_remove - 1]\<close>. An
  exception leaves the loop; what was removed before stays removed.\<close>

fun remove_loop ::
  "(string \<times> int) list \<Rightarrow> filesystem \<Rightarrow> log_record list
     \<Rightarrow> py_exception option \<times> filesystem \<times> log_record list"
where
  "remove_loop [] fs lg = (None, fs, lg)"
| "remove_loop (im # rest) fs lg =
     (case os_remove fs (fst im) of
        Inl e \<Rightarrow> (Some e, fs, lg)
      | Inr fs' \<Rightarrow> remove_loop rest fs' (lg @ [Info_Removed_old_image (os_path_basename (fst im))]))"

text \<open>\<open>cleanup_old_images\<close> (lines 33 to 54). \<open>list.sort(key=...)\<close> is stable, as
  \<open>sort_key\<close> is. The one \<open>try\<close> encloses the whole body.\<close>

definition cleanup_old_images :: "config \<Rightarrow> filesystem \<Rightarrow> filesystem \<times> log_record list" where
  "cleanup_old_images cfg fs =
     (case collect_images cfg fs (os_listdir fs (UPLOAD_FOLDER cfg)) [] of
        Inl e \<Rightarrow> (fs, [Error_during_cleanup e])
      | Inr unsorted \<Rightarrow>
          (let images = sort_key snd unsorted in
           if length images > MAX_IMAGES cfg then
             (let images_to_remove = length images - MAX_IMAGES cfg in
              case remove_loop (take images_to_remove images) fs [] of
                (None, fs', lg) \<Rightarrow> (fs', lg)
              | (Some e, fs', lg) \<Rightarrow> (fs', lg @ [Error_during_cleanup e]))
           else (fs, [])))"

section \<open>Usage summary: \<open>get_storage_info\<close>\<close>

text \<open>The dictionary of lines 111 to 117, without \<open>total_size_mb\<close> (a rounded float
  derived from \<open>total_size_bytes\<close>).\<close>

record storage_info =
  total_images :: nat
  total_size_bytes :: nat
  max_images :: nat
  remaining_slots :: int

text \<open>The loop of lines 105 to 109 with its two accumulators.\<close>

fun storage_loop ::
  "config \<Rightarrow> filesystem \<Rightarrow> string list \<Rightarrow> nat \<Rightarrow> nat \<Rightarrow> py_exception + (nat \<times> nat)"
where
  "storage_loop cfg fs [] total_size image_count = Inr (total_size, image_count)"
| "storage_loop cfg fs (filename # rest) total_size image_count =
     (if allowed_file cfg filename then
        (case os_path_getsize fs (os_path_join (UPLOAD_FOLDER cfg) filename) of
           Inl e \<Rightarrow> Inl e
         | Inr sz \<Rightarrow> storage_loop cfg fs rest (total_size + sz) (image_count + 1))
      else storage_loop cfg fs rest total_size image_count)"

definition get_storage_info :: "config \<Rightarrow> filesystem \<Rightarrow> py_exception + storage_info" where
  "get_storage_info cfg fs =
     (case storage_loop cfg fs (os_listdir fs (UPLOAD_FOLDER cfg)) 0 0 of
        Inl e \<Rightarrow> Inl e
      | Inr (total_size, image_count) \<Rightarrow>
          Inr \<lparr>total_images = image_count,
               total_size_bytes = total_size,
               max_images = MAX_IMAGES cfg,
               remaining_slots = max 0 (int (MAX_IMAGES cfg) - int image_count)\<rparr>)"

section \<open>Saving: \<open>save_image_locally\<close> and \<open>save_image\<close>\<close>

text \<open>
  \<open>base64\<close> and \<open>PIL\<close> are libraries, not code of this program: what they compute is a
  parameter. \<open>encode_PNG\<close> is the encoding half of \<open>image.save(filepath, 'PNG')\<close>; the
  writing half is \<open>write_file\<close>.
\<close>

record 'img codec =
  b64decode :: "string \<Rightarrow> py_exception + bytes"
  b64encode :: "bytes \<Rightarrow> string"
  Image_open :: "bytes \<Rightarrow> py_exception + 'img"
  image_mode :: "'img \<Rightarrow> string"
  convert_RGB :: "'img \<Rightarrow> 'img"
  encode_PNG :: "'img \<Rightarrow> py_exception + bytes"

text \<open>A value of the request's JSON object: a string, or anything else.\<close>

datatype py_value = PyStr string | PyNonStr

record save_result =
  filename :: string
  url :: string
  filepath :: string
  size :: nat

datatype local_result =
    Local_saved save_result
  | Local_failed py_exception

text \<open>Lines 62 to 64: \<open>image_data.split(',')[1]\<close> for a string that starts with
  \<open>data:image\<close>.\<close>

definition strip_data_url :: "py_value \<Rightarrow> py_exception + py_value" where
  "strip_data_url image_data =
     (case image_data of
        PyStr s \<Rightarrow>
          if startswith s ''data:image'' then
            (case split CHR '','' s of
               _ # second # _ \<Rightarrow> Inr (PyStr second)
             | _ \<Rightarrow> Inl IndexError)
          else Inr image_data
      | PyNonStr \<Rightarrow> Inr image_data)"

text \<open>Line 67: \<open>base64.b64decode\<close> raises \<open>TypeError\<close> on what is neither a string nor
  bytes.\<close>

definition base64_b64decode :: "'img codec \<Rightarrow> py_value \<Rightarrow> py_exception + bytes" where
  "base64_b64decode cdc image_data =
     (case image_data of PyStr s \<Rightarrow> b64decode cdc s | PyNonStr \<Rightarrow> Inl TypeError)"

text \<open>Lines 61 to 67: the bytes handed to \<open>Image.open\<close>.\<close>

definition image_bytes :: "'img codec \<Rightarrow> py_value \<Rightarrow> py_exception + bytes" where
  "image_bytes cdc image_data =
     (case strip_data_url image_data of
        Inl e \<Rightarrow> Inl e
      | Inr stripped \<Rightarrow> base64_b64decode cdc stripped)"

text \<open>Lines 70 to 77 up to the encoding.\<close>

definition png_of_bytes :: "'img codec \<Rightarrow> bytes \<Rightarrow> py_exception + bytes" where
  "png_of_bytes cdc bs =
     (case Image_open cdc bs of
        Inl e \<Rightarrow> Inl e
      | Inr img \<Rightarrow>
          encode_PNG cdc
            (if image_mode cdc img = ''RGBA'' \<or> image_mode cdc img = ''P''
             then convert_RGB cdc img else img))"

text \<open>\<open>save_image_locally\<close> (lines 56 to 98). \<open>now\<close> is the modification time the
  written file gets. An exception anywhere ends in the handler of lines 93 to 98.\<close>

definition save_image_locally ::
  "config \<Rightarrow> 'img codec \<Rightarrow> py_value \<Rightarrow> string \<Rightarrow> int \<Rightarrow> filesystem
     \<Rightarrow> local_result \<times> filesystem \<times> log_record list"
where
  "save_image_locally cfg cdc image_data name now fs =
     (let fpath = os_path_join (UPLOAD_FOLDER cfg) name in
      case image_bytes cdc image_data of
        Inl e \<Rightarrow> (Local_failed e, fs, [Error_saving_image e])
      | Inr bs \<Rightarrow>
          (case png_of_bytes cdc bs of
             Inl e \<Rightarrow> (Local_failed e, fs, [Error_saving_image e])
           | Inr png \<Rightarrow>
               (case write_file fs fpath png now of
                  Inl e \<Rightarrow> (Local_failed e, fs, [Error_saving_image e])
                | Inr written \<Rightarrow>
                    (case cleanup_old_images cfg written of
                       (cleaned, lg) \<Rightarrow>
                         (case os_path_getsize cleaned fpath of
                            Inl e \<Rightarrow> (Local_failed e, cleaned, lg @ [Error_saving_image e])
                          | Inr sz \<Rightarrow>
                              (Local_saved
                                 \<lparr>filename = name, url = ''/image/'' @ name,
                                  filepath = fpath, size = sz\<rparr>,
                               cleaned, lg))))))"

section \<open>HTTP handlers\<close>

datatype error_message =
    Storage_limit_reached nat
  | Failed_to_save_image py_exception
  | Invalid_file_type
  | No_image_data_provided
  | Internal_server_error py_exception
  | Failed_to_list_images py_exception
  | Invalid_filename
  | Image_not_found
  | Failed_to_retrieve_image py_exception
  | Failed_to_delete_image py_exception
  | Cleanup_failed py_exception

record image_entry =
  entry_filename :: string
  size_bytes :: nat
  modified :: int
  entry_url :: string

datatype response_body =
    Image_saved save_result
  | Failure error_message
  | Image_list "image_entry list"
  | File_sent bytes
  | Image_deleted string
  | Cleanup_completed storage_info

record response =
  status :: nat
  body :: response_body

text \<open>What a \<open>POST /save\<close> carries: \<open>request.json\<close> (which may raise, may be
  \<open>None\<close>, or is an object) and \<open>request.files\<close>, a field name with the uploaded
  file's name and bytes.\<close>

record request =
  json :: "py_exception + (string \<times> py_value) list option"
  files :: "(string \<times> string \<times> bytes) list"

text \<open>What the server draws by itself in lines 151 and 152, and the clock.\<close>

record moment =
  timestamp :: string
  unique_id :: string
  clock :: int

definition local_response :: "local_result \<Rightarrow> response" where
  "local_response r =
     (case r of
        Local_saved res \<Rightarrow> \<lparr>status = 201, body = Image_saved res\<rparr>
      | Local_failed e \<Rightarrow> \<lparr>status = 400, body = Failure (Failed_to_save_image e)\<rparr>)"

text \<open>Lines 156 and 157: \<open>request.json and 'imageData' in request.json\<close>.\<close>

definition json_imageData :: "(string \<times> py_value) list option \<Rightarrow> py_value option" where
  "json_imageData j = (case j of None \<Rightarrow> None | Some obj \<Rightarrow> map_of obj ''imageData'')"

text \<open>\<open>save_image\<close> (lines 137 to 198).\<close>

definition save_image ::
  "config \<Rightarrow> 'img codec \<Rightarrow> request \<Rightarrow> moment \<Rightarrow> filesystem
     \<Rightarrow> response \<times> filesystem \<times> log_record list"
where
  "save_image cfg cdc req m fs =
     (case get_storage_info cfg fs of
        Inl e \<Rightarrow>
          (\<lparr>status = 500, body = Failure (Internal_server_error e)\<rparr>, fs, [Error_in_save_image e])
      | Inr info \<Rightarrow>
          if total_images info \<ge> MAX_IMAGES cfg then
            (\<lparr>status = 400, body = Failure (Storage_limit_reached (MAX_IMAGES cfg))\<rparr>, fs, [])
          else
            (let name = ''nexus_edit_'' @ timestamp m @ ''_'' @ unique_id m @ ''.png'' in
             case json req of
               Inl e \<Rightarrow>
                 (\<lparr>status = 500, body = Failure (Internal_server_error e)\<rparr>, fs,
                  [Error_in_save_image e])
             | Inr j \<Rightarrow>
                 (case json_imageData j of
                    Some image_data \<Rightarrow>
                      (case save_image_locally cfg cdc image_data name (clock m) fs of
                         (result, fs', lg) \<Rightarrow> (local_response result, fs', lg))
                  | None \<Rightarrow>
                      (case map_of (files req) ''image'' of
                         Some (upload_name, upload_data) \<Rightarrow>
                           if upload_name \<noteq> [] \<and> allowed_file cfg upload_name then
                             (case save_image_locally cfg cdc
                                     (PyStr (b64encode cdc upload_data)) name (clock m) fs of
                                (result, fs', lg) \<Rightarrow> (local_response result, fs', lg))
                           else (\<lparr>status = 400, body = Failure Invalid_file_type\<rparr>, fs, [])
                       | None \<Rightarrow>
                           (\<lparr>status = 400, body = Failure No_image_data_provided\<rparr>, fs, [])))))"

text \<open>The scan of \<open>list_images\<close> (lines 204 to 217).\<close>

fun list_loop ::
  "config \<Rightarrow> filesystem \<Rightarrow> string list \<Rightarrow> image_entry list \<Rightarrow> py_exception + image_entry list"
where
  "list_loop cfg fs [] images = Inr images"
| "list_loop cfg fs (name # rest) images =
     (if allowed_file cfg name then
        (case os_path_getsize fs (os_path_join (UPLOAD_FOLDER cfg) name) of
           Inl e \<Rightarrow> Inl e
         | Inr file_size \<Rightarrow>
             (case os_path_getmtime fs (os_path_join (UPLOAD_FOLDER cfg) name) of
                Inl e \<Rightarrow> Inl e
              | Inr modified_time \<Rightarrow>
                  list_loop cfg fs rest
                    (images @ [\<lparr>entry_filename = name, size_bytes = file_size,
                                modified = modified_time, entry_url = ''/image/'' @ name\<rparr>])))
      else list_loop cfg fs rest images)"

text \<open>\<open>list_images\<close> (lines 200 to 233). The source orders by the ISO text of the
  modification time, newest first; the model orders by the time itself.
  \<open>sort(reverse=True)\<close> keeps equal keys in their original order.\<close>

definition list_images :: "config \<Rightarrow> filesystem \<Rightarrow> response \<times> log_record list" where
  "list_images cfg fs =
     (case list_loop cfg fs (os_listdir fs (UPLOAD_FOLDER cfg)) [] of
        Inl e \<Rightarrow> (\<lparr>status = 500, body = Failure (Failed_to_list_images e)\<rparr>, [Error_listing_images e])
      | Inr images \<Rightarrow>
          (\<lparr>status = 200, body = Image_list (rev (sort_key modified (rev images)))\<rparr>, []))"

text \<open>The security check of lines 240 and 268.\<close>

definition unsafe_filename :: "string \<Rightarrow> bool" where
  "unsafe_filename name = (str_contains ''..'' name \<or> startswith name ''/'')"

text \<open>\<open>get_image\<close> (lines 235 to 261).\<close>

definition get_image :: "config \<Rightarrow> string \<Rightarrow> filesystem \<Rightarrow> response \<times> log_record list" where
  "get_image cfg name fs =
     (if unsafe_filename name then (\<lparr>status = 400, body = Failure Invalid_filename\<rparr>, [])
      else
        (let fpath = os_path_join (UPLOAD_FOLDER cfg) name in
         if \<not> os_path_exists fs fpath then (\<lparr>status = 404, body = Failure Image_not_found\<rparr>, [])
         else
           (case read_file fs fpath of
              Inl e \<Rightarrow>
                (\<lparr>status = 500, body = Failure (Failed_to_retrieve_image e)\<rparr>,
                 [Error_retrieving_image e])
            | Inr data \<Rightarrow> (\<lparr>status = 200, body = File_sent data\<rparr>, []))))"

text \<open>\<open>delete_image\<close> (lines 263 to 294).\<close>

definition delete_image ::
  "config \<Rightarrow> string \<Rightarrow> filesystem \<Rightarrow> response \<times> filesystem \<times> log_record list"
where
  "delete_image cfg name fs =
     (if unsafe_filename name then (\<lparr>status = 400, body = Failure Invalid_filename\<rparr>, fs, [])
      else
        (let fpath = os_path_join (UPLOAD_FOLDER cfg) name in
         if \<not> os_path_exists fs fpath then
           (\<lparr>status = 404, body = Failure Image_not_found\<rparr>, fs, [])
         else
           (case os_remove fs fpath of
              Inl e \<Rightarrow>
                (\<lparr>status = 500, body = Failure (Failed_to_delete_image e)\<rparr>, fs,
                 [Error_deleting_image e])
            | Inr fs' \<Rightarrow> (\<lparr>status = 200, body = Image_deleted name\<rparr>, fs', []))))"

text \<open>\<open>cleanup_images\<close> (lines 312 to 329).\<close>

definition cleanup_images ::
  "config \<Rightarrow> filesystem \<Rightarrow> response \<times> filesystem \<times> log_record list"
where
  "cleanup_images cfg fs =
     (case cleanup_old_images cfg fs of
        (fs', lg) \<Rightarrow>
          (case get_storage_info cfg fs' of
             Inl e \<Rightarrow>
               (\<lparr>status = 500, body = Failure (Cleanup_failed e)\<rparr>, fs',
                lg @ [Error_during_cleanup e])
           | Inr info \<Rightarrow> (\<lparr>status = 200, body = Cleanup_completed info\<rparr>, fs', lg)))"

section \<open>Notions used to state the properties\<close>

text \<open>The entries \<open>os.listdir\<close> reports for the upload folder.\<close>

definition in_upload_folder :: "config \<Rightarrow> stored_file \<Rightarrow> bool" where
  "in_upload_folder cfg f =
     (os_path_basename (path f) \<noteq> [] \<and>
      os_path_join (UPLOAD_FOLDER cfg) (os_path_basename (path f)) = path f)"

text \<open>A stored image: an entry of the upload folder whose name \<open>allowed_file\<close> accepts.\<close>

definition is_stored_image :: "config \<Rightarrow> stored_file \<Rightarrow> bool" where
  "is_stored_image cfg f =
     (in_upload_folder cfg f \<and> allowed_file cfg (os_path_basename (path f)))"

definition stored_images :: "config \<Rightarrow> filesystem \<Rightarrow> stored_file list" where
  "stored_images cfg fs = filter (is_stored_image cfg) fs"

text \<open>No two files of a file system share a path.\<close>

definition well_formed :: "filesystem \<Rightarrow> bool" where
  "well_formed fs = distinct (map path fs)"

text \<open>A file system with a file outside the upload folder and one stored image.\<close>

definition passwd_store :: filesystem where
  "passwd_store =
     [\<lparr>path = ''/etc/passwd'', content = ''root:x:0:0'', mtime = 1, locked = False\<rparr>,
      \<lparr>path = ''uploads/a.png'', content = ''PNG'', mtime = 2, locked = False\<rparr>]"

section \<open>Properties\<close>

subsection \<open>Path-traversal rejection\<close>

text \<open>
  Claim C4. A filename that contains \<open>..\<close> or starts with a slash is answered by
  \<open>get_image\<close> and by \<open>delete_image\<close> with status 400 and the error
  \<open>Invalid filename\<close>. The answer is the same for every file system, so no file was
  looked at, and \<open>delete_image\<close> hands the file system back as it got it.
\<close>

theorem path_traversal_rejected:
  assumes "str_contains ''..'' name \<or> startswith name ''/''"
  shows "get_image cfg name fs = (\<lparr>status = 400, body = Failure Invalid_filename\<rparr>, []) \<and>
         delete_image cfg name fs = (\<lparr>status = 400, body = Failure Invalid_filename\<rparr>, fs, [])"
  using assms by (simp add: get_image_def delete_image_def unsafe_filename_def)

theorem path_traversal_rejected_witness:
  "(str_contains ''..'' ''../etc/passwd'' \<or> startswith ''../etc/passwd'' ''/'') \<and>
   get_image app_config ''../etc/passwd'' passwd_store =
     (\<lparr>status = 400, body = Failure Invalid_filename\<rparr>, []) \<and>
   delete_image app_config ''../etc/passwd'' passwd_store =
     (\<lparr>status = 400, body = Failure Invalid_filename\<rparr>, passwd_store, [])"
proof -
  have h: "str_contains ''..'' ''../etc/passwd'' \<or> startswith ''../etc/passwd'' ''/''"
    by simp
  show ?thesis
    using h path_traversal_rejected [OF h, of app_config passwd_store] by blast
qed

end
